theory Spec2Isabelle
  imports Main "HOL-Library.Sublist"
begin

section \<open>Python values used by the script\<close>

text \<open>
  A Python \<open>str\<close> is a \<open>string\<close>: one \<open>char\<close> per character of the Python string.
  The pictographs that open three labels of the page are left out of the labels, since
  \<open>char\<close> has 256 values only; no property below reads a label.
\<close>

definition nl :: string where
  "nl = [CHR 0x0A]"

definition dquote :: string where
  "dquote = [CHR 0x22]"

text \<open>A triple-quoted template: every line of it ends with a newline.\<close>

definition text_lines :: "string list \<Rightarrow> string" where
  "text_lines ls = concat (map (\<lambda>l. l @ nl) ls)"

text \<open>
  Exceptions. The first five are raised by the script's own statements (the \<open>raise\<close> of
  \<open>safe_execute\<close>, subscripting and the attribute access in \<open>call_bedrock\<close>);
  \<open>Raised x\<close> is an exception \<open>x\<close> coming out of a library call (boto3, json, eval,
  streamlit).
\<close>

datatype 'x exn =
    ValueError string
  | KeyError string
  | IndexError
  | TypeError
  | AttributeError
  | Raised 'x

text \<open>What \<open>json.loads\<close> returns and \<open>json.dumps\<close> takes.\<close>

datatype json =
    JNull
  | JBool bool
  | JNum int
  | JStr string
  | JList "json list"
  | JObj "(string \<times> json) list"

text \<open>
  A pandas DataFrame: the ordered column labels, the dtype of each column by its label
  (what \<open>astype(str)\<close> gives), and the rows, each with one cell per column.
\<close>

record 'a dataframe =
  columns :: "string list"
  dtypes :: "string list"
  rows :: "'a list list"

definition wf_dataframe :: "'a dataframe \<Rightarrow> bool" where
  "wf_dataframe df =
     (length (dtypes df) = length (columns df) \<and>
      list_all (\<lambda>r. length r = length (columns df)) (rows df))"

text \<open>
  The value of an evaluated expression, by the runtime type \<open>auto_visualize\<close> tests:
  a \<open>pd.Series\<close> (its values), a \<open>pd.DataFrame\<close>, or anything else.
\<close>

datatype 'a result =
    Series "'a list"
  | DataFrame "'a dataframe"
  | Other 'a

section \<open>Substring test\<close>

text \<open>\<open>code.startswith(b)\<close> and \<open>b in code\<close> on strings.\<close>

fun starts_with :: "'c list \<Rightarrow> 'c list \<Rightarrow> bool" where
  "starts_with [] cs = True"
| "starts_with (b # bs) [] = False"
| "starts_with (b # bs) (c # cs) = (b = c \<and> starts_with bs cs)"

fun contains :: "'c list \<Rightarrow> 'c list \<Rightarrow> bool" where
  "contains b [] = (b = [])"
| "contains b (c # cs) = (starts_with b (c # cs) \<or> contains b cs)"

section \<open>Python's eval\<close>

text \<open>
  The objects a name can resolve to during the evaluation: the DataFrame of the session,
  the \<open>builtins\<close> module, and a member of that module.
\<close>

datatype pyobj = Dataframe_obj | Builtins_module | Builtin string

type_synonym globals = "string \<rightharpoonup> pyobj"

text \<open>
  \<open>eval(expression, globals)\<close>: when \<open>globals\<close> has no key \<open>__builtins__\<close>, a
  reference to the \<open>builtins\<close> module is inserted under that key before the expression
  is evaluated.
\<close>

definition eval_globals :: "globals \<Rightarrow> globals" where
  "eval_globals g =
     (if g ''__builtins__'' = None then g(''__builtins__'' \<mapsto> Builtins_module) else g)"

text \<open>
  Name lookup of the evaluated expression: the globals first, then the members of the
  module bound to \<open>__builtins__\<close>. \<open>bi\<close> lists the names of the \<open>builtins\<close> module.
\<close>

definition resolve :: "string list \<Rightarrow> globals \<Rightarrow> string \<Rightarrow> pyobj option" where
  "resolve bi g n =
     (case g n of
        Some ob \<Rightarrow> Some ob
      | None \<Rightarrow>
          (case g ''__builtins__'' of
             Some Builtins_module \<Rightarrow> if n \<in> set bi then Some (Builtin n) else None
           | _ \<Rightarrow> None))"

section \<open>The page\<close>

text \<open>
  The streamlit calls of the script, as the elements they put on the page.
  \<open>Set_index f k\<close> is \<open>f.set_index(k)\<close>.
\<close>

datatype 'a chart_data = Plain "'a result" | Set_index "'a dataframe" string

datatype 'a element =
    Divider
  | Subheader string
  | Expander string "'a element list"
  | Code string
  | Success string
  | Write_str string
  | Write_value "'a result"
  | Bar_chart "'a chart_data"
  | Dataframe_view "'a dataframe"
  | Info string
  | Error string
  | Text string

section \<open>The libraries, as parameters\<close>

text \<open>
  What the script calls and does not define:
  \<^item> \<open>invoke_model n model body\<close>: \<open>bedrock.invoke_model\<close> followed by
    \<open>response["body"].read()\<close>, \<open>n\<close> invocations having been made before;
    the bytes of the response, or the exception;
  \<^item> \<open>json_dumps\<close>, \<open>json_loads\<close>;
  \<^item> \<open>builtin_names\<close>: the names of Python's \<open>builtins\<close> module;
  \<^item> \<open>expr_value code scope df\<close>: the value (or exception) of the expression \<open>code\<close>
    with its names looked up by \<open>scope\<close>, and the DataFrame as the evaluation leaves it;
  \<^item> \<open>st_raises el\<close>: the exception of the streamlit call for \<open>el\<close>, if it raises;
  \<^item> \<open>to_str\<close>: \<open>str(result)\<close>; the three \<open>repr_\<close>: the formatting of the schema's
    fields in an f-string; \<open>format_exc\<close>: \<open>traceback.format_exc()\<close>.
\<close>

record ('a, 'x, 'w) env =
  invoke_model :: "nat \<Rightarrow> string \<Rightarrow> 'w \<Rightarrow> 'x + 'w"
  json_dumps :: "json \<Rightarrow> 'w"
  json_loads :: "'w \<Rightarrow> 'x + json"
  builtin_names :: "string list"
  expr_value :: "string \<Rightarrow> (string \<Rightarrow> pyobj option) \<Rightarrow> 'a dataframe
                   \<Rightarrow> ('x + 'a result) \<times> 'a dataframe"
  st_raises :: "'a element \<Rightarrow> 'x option"
  to_str :: "'a result \<Rightarrow> string"
  repr_columns :: "string list \<Rightarrow> string"
  repr_types :: "(string \<times> string) list \<Rightarrow> string"
  repr_rows :: "(string \<times> 'a) list list \<Rightarrow> string"
  format_exc :: "'x exn \<Rightarrow> string"

definition eval_py ::
  "('a, 'x, 'w) env \<Rightarrow> string \<Rightarrow> globals \<Rightarrow> 'a dataframe
     \<Rightarrow> ('x exn + 'a result) \<times> 'a dataframe" where
  "eval_py env code g df =
     (case expr_value env code (resolve (builtin_names env) (eval_globals g)) df of
        (Inl x, df') \<Rightarrow> (Inl (Raised x), df')
      | (Inr v, df') \<Rightarrow> (Inr v, df'))"

section \<open>safe_execute\<close>

definition banned :: "string list" where
  "banned = [''import'', ''os.'', ''open('', ''exec'', ''eval'', ''__'', ''sys.'']"

text \<open>
  The second component is the DataFrame after the call: \<open>eval\<close> receives the object
  itself under the name \<open>df\<close>, not a copy.
\<close>

definition safe_execute ::
  "('a, 'x, 'w) env \<Rightarrow> string \<Rightarrow> 'a dataframe \<Rightarrow> ('x exn + 'a result) \<times> 'a dataframe" where
  "safe_execute env code df =
     (if list_ex (\<lambda>b. contains b code) banned
      then (Inl (ValueError ''Unsafe code detected''), df)
      else eval_py env code [''df'' \<mapsto> Dataframe_obj] df)"

section \<open>get_schema and build_prompt\<close>

text \<open>
  A Python \<open>dict\<close> built from pairs in order: a key seen again keeps its place and
  takes the later value.
\<close>

fun dict_set :: "'k \<Rightarrow> 'v \<Rightarrow> ('k \<times> 'v) list \<Rightarrow> ('k \<times> 'v) list" where
  "dict_set k v [] = [(k, v)]"
| "dict_set k v ((k', v') # ps) =
     (if k = k' then (k, v) # ps else (k', v') # dict_set k v ps)"

definition dict_of :: "('k \<times> 'v) list \<Rightarrow> ('k \<times> 'v) list" where
  "dict_of ps = foldl (\<lambda>d (k, v). dict_set k v d) [] ps"

record 'a schema =
  schema_columns :: "string list"
  types :: "(string \<times> string) list"
  sample_rows :: "(string \<times> 'a) list list"

definition get_schema :: "'a dataframe \<Rightarrow> 'a schema" where
  "get_schema df =
     \<lparr> schema_columns = columns df,
       types = dict_of (zip (columns df) (dtypes df)),
       sample_rows = map (\<lambda>r. dict_of (zip (columns df) r)) (take 5 (rows df)) \<rparr>"

definition build_prompt :: "('a, 'x, 'w) env \<Rightarrow> 'a schema \<Rightarrow> string \<Rightarrow> string" where
  "build_prompt env schema question =
     text_lines
       [[],
        ''You are a senior data analyst.'',
        [],
        ''Dataframe schema:'',
        ''Columns: '' @ repr_columns env (schema_columns schema),
        ''Types: '' @ repr_types env (types schema),
        ''Sample rows: '' @ repr_rows env (sample_rows schema),
        [],
        ''User question:'',
        dquote @ question @ dquote,
        [],
        ''Rules:'',
        ''- Use pandas only'',
        ''- The dataframe variable is named df'',
        ''- Do NOT modify df'',
        ''- Do NOT import anything'',
        ''- Return ONLY a single pandas expression'']"

section \<open>The session\<close>

text \<open>
  What a run of the script reads and changes: the DataFrame bound to \<open>df\<close>, the calls
  made to \<open>bedrock.invoke_model\<close> so far (model identifier and body), and the elements
  on the page, in the order they were drawn.
\<close>

record ('a, 'w) session =
  dataset :: "'a dataframe"
  invocations :: "(string \<times> 'w) list"
  page :: "'a element list"

text \<open>Sequencing: an exception ends the sequence with the state reached so far.\<close>

definition then_do ::
  "('s \<Rightarrow> ('e + 'r) \<times> 's) \<Rightarrow> ('r \<Rightarrow> 's \<Rightarrow> ('e + 'q) \<times> 's) \<Rightarrow> 's \<Rightarrow> ('e + 'q) \<times> 's" where
  "then_do m f s = (case m s of (Inl e, s') \<Rightarrow> (Inl e, s') | (Inr r, s') \<Rightarrow> f r s')"

text \<open>A streamlit call: it raises, or its element is on the page from then on.\<close>

definition st ::
  "('a, 'x, 'w) env \<Rightarrow> 'a element \<Rightarrow> ('a, 'w) session \<Rightarrow> ('x exn + unit) \<times> ('a, 'w) session" where
  "st env el s =
     (case st_raises env el of
        Some x \<Rightarrow> (Inl (Raised x), s)
      | None \<Rightarrow> (Inr (), s\<lparr>page := page s @ [el]\<rparr>))"

section \<open>call_bedrock\<close>

definition MODEL_ID :: string where
  "MODEL_ID = ''anthropic.claude-3-sonnet-20240229-v1:0''"

definition request_body :: "string \<Rightarrow> json" where
  "request_body prompt =
     JObj [(''anthropic_version'', JStr ''bedrock-2023-05-31''),
           (''max_tokens'', JNum 300),
           (''temperature'', JNum 0),
           (''messages'', JList [JObj [(''role'', JStr ''user''), (''content'', JStr prompt)]])]"

text \<open>\<open>v[k]\<close> for a string \<open>k\<close>, \<open>v[0]\<close> and \<open>v.strip()\<close> on a decoded JSON value.\<close>

fun getitem :: "json \<Rightarrow> string \<Rightarrow> 'x exn + json" where
  "getitem (JObj kvs) k = (case map_of kvs k of None \<Rightarrow> Inl (KeyError k) | Some v \<Rightarrow> Inr v)"
| "getitem v k = Inl TypeError"

fun getitem0 :: "json \<Rightarrow> 'x exn + json" where
  "getitem0 (JList []) = Inl IndexError"
| "getitem0 (JList (v # vs)) = Inr v"
| "getitem0 (JStr []) = Inl IndexError"
| "getitem0 (JStr (c # cs)) = Inr (JStr [c])"
| "getitem0 (JObj kvs) = Inl (KeyError ''0'')"
| "getitem0 v = Inl TypeError"

definition isspace :: "char \<Rightarrow> bool" where
  "isspace c = (of_char c \<in> set [9, 10, 11, 12, 13, 28, 29, 30, 31, 32, 133, 160 :: nat])"

definition strip :: "string \<Rightarrow> string" where
  "strip s = rev (dropWhile isspace (rev (dropWhile isspace s)))"

fun strip_of :: "json \<Rightarrow> 'x exn + string" where
  "strip_of (JStr s) = Inr (strip s)"
| "strip_of v = Inl AttributeError"

definition first_text :: "json \<Rightarrow> 'x exn + string" where
  "first_text response_body =
     (case getitem response_body ''content'' of
        Inl e \<Rightarrow> Inl e
      | Inr content \<Rightarrow>
          (case getitem0 content of
             Inl e \<Rightarrow> Inl e
           | Inr seg \<Rightarrow>
               (case getitem seg ''text'' of
                  Inl e \<Rightarrow> Inl e
                | Inr t \<Rightarrow> strip_of t)))"

definition call_bedrock ::
  "('a, 'x, 'w) env \<Rightarrow> string \<Rightarrow> ('a, 'w) session \<Rightarrow> ('x exn + string) \<times> ('a, 'w) session" where
  "call_bedrock env prompt s =
     (let body = json_dumps env (request_body prompt);
          s' = s\<lparr>invocations := invocations s @ [(MODEL_ID, body)]\<rparr>
      in case invoke_model env (length (invocations s)) MODEL_ID body of
           Inl x \<Rightarrow> (Inl (Raised x), s')
         | Inr raw \<Rightarrow>
             (case json_loads env raw of
                Inl x \<Rightarrow> (Inl (Raised x), s')
              | Inr response_body \<Rightarrow> (first_text response_body, s')))"

section \<open>auto_visualize and explain_result\<close>

fun auto_visualize ::
  "('a, 'x, 'w) env \<Rightarrow> 'a result \<Rightarrow> ('a, 'w) session \<Rightarrow> ('x exn + unit) \<times> ('a, 'w) session" where
  "auto_visualize env (Series v) = st env (Bar_chart (Plain (Series v)))"
| "auto_visualize env (DataFrame f) =
     (if length (columns f) = 2
      then st env (Bar_chart (Set_index f (columns f ! 0)))
      else st env (Dataframe_view f))"
| "auto_visualize env (Other v) = st env (Write_value (Other v))"

text \<open>The element that \<open>auto_visualize\<close> asks streamlit to draw.\<close>

fun chosen_display :: "'a result \<Rightarrow> 'a element" where
  "chosen_display (Series v) = Bar_chart (Plain (Series v))"
| "chosen_display (DataFrame f) =
     (if length (columns f) = 2 then Bar_chart (Set_index f (columns f ! 0)) else Dataframe_view f)"
| "chosen_display (Other v) = Write_value (Other v)"

definition explain_prompt :: "('a, 'x, 'w) env \<Rightarrow> string \<Rightarrow> 'a result \<Rightarrow> string" where
  "explain_prompt env question result =
     text_lines
       [[],
        ''Explain the following analysis result in simple business language.'',
        [],
        ''Question:'',
        question,
        [],
        ''Result:'',
        take 1000 (to_str env result)]"

definition explain_result ::
  "('a, 'x, 'w) env \<Rightarrow> string \<Rightarrow> 'a result \<Rightarrow> ('a, 'w) session
     \<Rightarrow> ('x exn + string) \<times> ('a, 'w) session" where
  "explain_result env question result = call_bedrock env (explain_prompt env question result)"

section \<open>The analysis handler\<close>

text \<open>\<open>safe_execute(ai_code, df)\<close> on the DataFrame of the session.\<close>

definition execute_on_df ::
  "('a, 'x, 'w) env \<Rightarrow> string \<Rightarrow> ('a, 'w) session \<Rightarrow> ('x exn + 'a result) \<times> ('a, 'w) session" where
  "execute_on_df env ai_code s =
     (case safe_execute env ai_code (dataset s) of (r, df') \<Rightarrow> (r, s\<lparr>dataset := df'\<rparr>))"

text \<open>
  The body of the \<open>try\<close>. The spinner around it shows a message while the body runs and
  leaves nothing on the page.
\<close>

definition try_body ::
  "('a, 'x, 'w) env \<Rightarrow> string \<Rightarrow> string \<Rightarrow> ('a, 'w) session \<Rightarrow> ('x exn + unit) \<times> ('a, 'w) session" where
  "try_body env prompt question =
     then_do (call_bedrock env prompt) (\<lambda>ai_code.
     then_do (st env (Expander ''AI-Generated Pandas Code'' [Code ai_code])) (\<lambda>_.
     then_do (execute_on_df env ai_code) (\<lambda>result.
     then_do (st env (Success ''Analysis completed!'')) (\<lambda>_.
     then_do (st env (Write_str ''### Result'')) (\<lambda>_.
     then_do (st env (Write_value result)) (\<lambda>_.
     then_do (st env (Write_str ''### Visualization'')) (\<lambda>_.
     then_do (auto_visualize env result) (\<lambda>_.
     then_do (st env (Write_str ''### Explanation'')) (\<lambda>_.
     then_do (explain_result env question result) (\<lambda>explanation.
     st env (Info explanation)))))))))))"

text \<open>The statements of the \<open>try\<close> that follow the first remote call.\<close>

definition after_generation ::
  "('a, 'x, 'w) env \<Rightarrow> string \<Rightarrow> string \<Rightarrow> ('a, 'w) session \<Rightarrow> ('x exn + unit) \<times> ('a, 'w) session" where
  "after_generation env question ai_code =
     then_do (st env (Expander ''AI-Generated Pandas Code'' [Code ai_code])) (\<lambda>_.
     then_do (execute_on_df env ai_code) (\<lambda>result.
     then_do (st env (Success ''Analysis completed!'')) (\<lambda>_.
     then_do (st env (Write_str ''### Result'')) (\<lambda>_.
     then_do (st env (Write_value result)) (\<lambda>_.
     then_do (st env (Write_str ''### Visualization'')) (\<lambda>_.
     then_do (auto_visualize env result) (\<lambda>_.
     then_do (st env (Write_str ''### Explanation'')) (\<lambda>_.
     then_do (explain_result env question result) (\<lambda>explanation.
     st env (Info explanation))))))))))"

text \<open>
  The block under \<open>if run_btn and question\<close>, with \<open>schema\<close> as computed when the file
  was loaded. \<open>except Exception\<close> takes every exception of the model.
\<close>

definition except_block ::
  "('a, 'x, 'w) env \<Rightarrow> 'x exn \<Rightarrow> ('a, 'w) session \<Rightarrow> ('x exn + unit) \<times> ('a, 'w) session" where
  "except_block env e =
     then_do (st env (Error ''Something went wrong.'')) (\<lambda>_.
     st env (Text (format_exc env e)))"

definition run_analysis ::
  "('a, 'x, 'w) env \<Rightarrow> 'a schema \<Rightarrow> string \<Rightarrow> ('a, 'w) session \<Rightarrow> ('x exn + unit) \<times> ('a, 'w) session" where
  "run_analysis env schema question =
     then_do (st env Divider) (\<lambda>_.
     then_do (st env (Subheader ''Analysis'')) (\<lambda>_ s.
       (case try_body env (build_prompt env schema question) question s of
          (Inr u, s') \<Rightarrow> (Inr u, s')
        | (Inl e, s') \<Rightarrow> except_block env e s')))"

section \<open>A concrete environment\<close>

text \<open>
  A session to run the definitions on: a DataFrame of integers with the columns
  \<open>region\<close> and \<open>revenue\<close>, Python's value of four expressions over it, and a remote
  model that answers the \<open>n\<close>-th invocation with the \<open>n\<close>-th entry of a script.
\<close>

fun position :: "'k \<Rightarrow> 'k list \<Rightarrow> nat option" where
  "position k [] = None"
| "position k (c # cs) = (if k = c then Some 0 else map_option Suc (position k cs))"

definition drop_at :: "nat \<Rightarrow> 'b list \<Rightarrow> 'b list" where
  "drop_at i xs = take i xs @ drop (Suc i) xs"

text \<open>
  \<open>df.pop(name)\<close>: the column as a Series, and the column removed from \<open>df\<close> itself;
  \<open>df[name].sum()\<close>: the total of a column.
\<close>

definition pop_column :: "string \<Rightarrow> int dataframe \<Rightarrow> (string + int result) \<times> int dataframe" where
  "pop_column name df =
     (case position name (columns df) of
        None \<Rightarrow> (Inl ''KeyError'', df)
      | Some i \<Rightarrow>
          (Inr (Series (map (\<lambda>r. r ! i) (rows df))),
           \<lparr> columns = drop_at i (columns df),
             dtypes = drop_at i (dtypes df),
             rows = map (drop_at i) (rows df) \<rparr>))"

definition sum_column :: "string \<Rightarrow> int dataframe \<Rightarrow> (string + int result) \<times> int dataframe" where
  "sum_column name df =
     (case position name (columns df) of
        None \<Rightarrow> (Inl ''KeyError'', df)
      | Some i \<Rightarrow> (Inr (Other (sum_list (map (\<lambda>r. r ! i) (rows df)))), df))"

definition pandas_fragment ::
  "string \<Rightarrow> (string \<Rightarrow> pyobj option) \<Rightarrow> int dataframe \<Rightarrow> (string + int result) \<times> int dataframe" where
  "pandas_fragment code scope df =
     (if scope ''df'' \<noteq> Some Dataframe_obj then (Inl ''NameError'', df)
      else if code = ''df'' then (Inr (DataFrame df), df)
      else if code = ''len(df)'' then
        (if scope ''len'' = Some (Builtin ''len'')
         then (Inr (Other (int (length (rows df)))), df)
         else (Inl ''NameError'', df))
      else if code = ''df['revenue'].sum()'' then sum_column ''revenue'' df
      else if code = ''df.pop('revenue')'' then pop_column ''revenue'' df
      else (Inl ''SyntaxError'', df))"

definition scripted_env :: "(string + json) list \<Rightarrow> (int, string, json) env" where
  "scripted_env replies =
     \<lparr> invoke_model =
         (\<lambda>n model body. if n < length replies then replies ! n else Inl ''EndpointConnectionError''),
       json_dumps = (\<lambda>j. j),
       json_loads = Inr,
       builtin_names = [''len'', ''sum'', ''getattr''],
       expr_value = pandas_fragment,
       st_raises = (\<lambda>el. None),
       to_str = (\<lambda>r. case r of Series v \<Rightarrow> ''Series'' | DataFrame f \<Rightarrow> ''DataFrame'' | Other n \<Rightarrow> ''scalar''),
       repr_columns = concat,
       repr_types = (\<lambda>d. concat (map fst d)),
       repr_rows = (\<lambda>rs. concat (map (\<lambda>r. concat (map fst r)) rs)),
       format_exc = (\<lambda>e. ''Traceback (most recent call last)'') \<rparr>"

definition reply :: "string \<Rightarrow> string + json" where
  "reply t = Inr (JObj [(''content'', JList [JObj [(''type'', JStr ''text''), (''text'', JStr t)]])])"

definition sales :: "int dataframe" where
  "sales = \<lparr> columns = [''region'', ''revenue''],
             dtypes = [''int64'', ''int64''],
             rows = [[1, 10], [2, 20], [3, 30]] \<rparr>"

definition fresh :: "(int, json) session" where
  "fresh = \<lparr> dataset = sales, invocations = [], page = [] \<rparr>"

section \<open>Properties of the substring test\<close>

lemma starts_with_prefix: "starts_with b cs = prefix b cs"
  by (induction b cs rule: starts_with.induct) simp_all

lemma contains_sublist: "contains b cs = sublist b cs"
proof (induction cs)
  case Nil
  show ?case by simp
next
  case (Cons c cs)
  show ?case
  proof (cases b)
    case Nil
    then show ?thesis by simp
  next
    case (Cons x xs)
    with Cons.IH show ?thesis
      by (simp add: starts_with_prefix sublist_Cons_right del: starts_with.simps)
  qed
qed

lemma contains_iff: "contains b cs \<longleftrightarrow> (\<exists>ps ss. cs = ps @ b @ ss)"
  by (simp add: contains_sublist sublist_def)

section \<open>The denylist\<close>


lemma rejected_iff:
  "list_ex (\<lambda>b. contains b code) banned \<longleftrightarrow> (\<exists>b \<in> set banned. sublist b code)"
  by (simp add: list_ex_iff contains_sublist)

text \<open>
  C10. The denylist is tested before anything is evaluated: for code that contains a
  banned string, \<open>safe_execute\<close> raises and returns the DataFrame as it was, and this for
  every evaluator, also one that would change the DataFrame; in the handler the session
  is left as it was.
\<close>

theorem safe_execute_rejects_before_eval:
  "b \<in> set banned \<Longrightarrow> sublist b code \<Longrightarrow>
     safe_execute env code df = (Inl (ValueError ''Unsafe code detected''), df)
     \<and> safe_execute (env\<lparr>expr_value := ev\<rparr>) code df = safe_execute env code df
     \<and> execute_on_df env code s = (Inl (ValueError ''Unsafe code detected''), s)"
proof -
  assume "b \<in> set banned" and "sublist b code"
  then have r: "list_ex (\<lambda>b. contains b code) banned"
    unfolding rejected_iff by blast
  then show ?thesis
    by (simp add: safe_execute_def execute_on_df_def)
qed

theorem safe_execute_rejects_before_eval_witness:
  "safe_execute (scripted_env []) ''df.columns.__len__()'' sales
     = (Inl (ValueError ''Unsafe code detected''), sales)
   \<and> safe_execute ((scripted_env [])\<lparr>expr_value := (\<lambda>c sc d. pop_column ''revenue'' d)\<rparr>)
        ''df.columns.__len__()'' sales
     = safe_execute (scripted_env []) ''df.columns.__len__()'' sales
   \<and> execute_on_df (scripted_env []) ''df.columns.__len__()'' fresh
     = (Inl (ValueError ''Unsafe code detected''), fresh)"
proof -
  have a: "''__'' \<in> set banned" by (simp add: banned_def)
  have "''df.columns.__len__()'' = ''df.columns.'' @ ''__'' @ ''len__()''" by simp
  then have b: "sublist ''__'' ''df.columns.__len__()''"
    unfolding sublist_def by blast
  show ?thesis
    using safe_execute_rejects_before_eval
      [OF a b, of "scripted_env []" sales "(\<lambda>c sc d. pop_column ''revenue'' d)" fresh]
    by simp
qed

section \<open>The names an evaluated expression can use\<close>

lemma scope_of_safe_execute:
  "resolve bi (eval_globals [''df'' \<mapsto> Dataframe_obj]) =
     (\<lambda>n. if n = ''df'' then Some Dataframe_obj
          else if n = ''__builtins__'' then Some Builtins_module
          else if n \<in> set bi then Some (Builtin n) else None)"
  by (rule ext) (simp add: resolve_def eval_globals_def)

text \<open>
  C2, as the code has it. Code that passes the denylist is evaluated as an expression
  with the globals \<open>{"df": df}\<close>, and its value (or its exception) is returned as it is.
  The DataFrame is the only binding the script passes, but not the only name the
  expression can use: \<open>eval\<close> adds \<open>__builtins__\<close> to the globals, so every name of
  Python's \<open>builtins\<close> module resolves too.
\<close>

theorem safe_execute_scope:
  "\<not> list_ex (\<lambda>b. contains b code) banned \<Longrightarrow>
     safe_execute env code df =
       (case expr_value env code
               (\<lambda>n. if n = ''df'' then Some Dataframe_obj
                    else if n = ''__builtins__'' then Some Builtins_module
                    else if n \<in> set (builtin_names env) then Some (Builtin n) else None) df of
          (Inl x, df') \<Rightarrow> (Inl (Raised x), df')
        | (Inr v, df') \<Rightarrow> (Inr v, df'))"
  by (simp add: safe_execute_def eval_py_def scope_of_safe_execute)

theorem safe_execute_scope_witness:
  "\<not> list_ex (\<lambda>b. contains b ''df['revenue'].sum()'') banned \<and>
   safe_execute (scripted_env []) ''df['revenue'].sum()'' sales = (Inr (Other 60), sales)"
proof -
  have p: "\<not> list_ex (\<lambda>b. contains b ''df['revenue'].sum()'') banned"
    by (simp add: banned_def)
  show ?thesis
    using safe_execute_scope [OF p, of "scripted_env []" sales] p
    by (simp add: scripted_env_def pandas_fragment_def sum_column_def sales_def)
qed

text \<open>
  C2 as stated fails: \<open>len(df)\<close> passes the denylist, its name \<open>len\<close> is not \<open>df\<close> and
  resolves to the builtin, and the evaluation returns the number of rows. The name
  \<open>__builtins__\<close> itself is bound as well, whatever the module holds.
\<close>

theorem safe_execute_only_df_counterexample:
  "\<not> list_ex (\<lambda>b. contains b ''len(df)'') banned \<and>
   resolve (builtin_names (scripted_env [])) (eval_globals [''df'' \<mapsto> Dataframe_obj]) ''len''
     = Some (Builtin ''len'') \<and>
   resolve [] (eval_globals [''df'' \<mapsto> Dataframe_obj]) ''__builtins__'' = Some Builtins_module \<and>
   safe_execute (scripted_env []) ''len(df)'' sales = (Inr (Other 3), sales)"
  by (simp add: banned_def resolve_def eval_globals_def scripted_env_def safe_execute_def
        eval_py_def pandas_fragment_def sales_def)

section \<open>The schema descriptor\<close>

lemma dict_set_fresh: "k \<notin> fst ` set d \<Longrightarrow> dict_set k v d = d @ [(k, v)]"
  by (induction d) auto

lemma foldl_dict_set_distinct:
  "distinct (map fst (d @ ps)) \<Longrightarrow> foldl (\<lambda>d (k, v). dict_set k v d) d ps = d @ ps"
proof (induction ps arbitrary: d)
  case Nil
  show ?case by simp
next
  case (Cons p ps)
  obtain k v where p: "p = (k, v)" by (cases p)
  from Cons.prems have fresh: "k \<notin> fst ` set d" by (auto simp: p)
  from Cons.prems have "distinct (map fst ((d @ [(k, v)]) @ ps))" by (simp add: p)
  from Cons.IH [OF this] show ?case by (simp add: p dict_set_fresh [OF fresh])
qed

lemma dict_of_distinct: "distinct (map fst ps) \<Longrightarrow> dict_of ps = ps"
  using foldl_dict_set_distinct [of "[]" ps] by (simp add: dict_of_def)

lemma distinct_zip_keys: "distinct ks \<Longrightarrow> distinct (map fst (zip ks vs))"
  by (simp add: map_fst_zip_take)

lemma dict_of_zip: "distinct ks \<Longrightarrow> dict_of (zip ks vs) = zip ks vs"
  by (rule dict_of_distinct) (rule distinct_zip_keys)

text \<open>
  C5. For a DataFrame as pandas loads it (one dtype per column, one cell per column in
  each row, column labels made unique by the reader), the descriptor's \<open>columns\<close> are
  the column labels in order, whatever the rows are; \<open>types\<close> pairs each column label
  with the label of its dtype; \<open>sample_rows\<close> are the first five rows, or all of them
  when there are fewer, each as the record of its cells under the column labels.
  \<open>get_schema\<close> takes the DataFrame and nothing else.
\<close>

theorem get_schema_descriptor:
  assumes wf: "wf_dataframe df" and dist: "distinct (columns df)"
  shows "schema_columns (get_schema df) = columns df
    \<and> schema_columns (get_schema (df\<lparr>rows := rs\<rparr>)) = columns df
    \<and> types (get_schema df) = zip (columns df) (dtypes df)
    \<and> map fst (types (get_schema df)) = columns df
    \<and> (\<forall>i < length (columns df).
          map_of (types (get_schema df)) (columns df ! i) = Some (dtypes df ! i))
    \<and> sample_rows (get_schema df) = map (\<lambda>r. zip (columns df) r) (take 5 (rows df))
    \<and> length (sample_rows (get_schema df)) = min 5 (length (rows df))
    \<and> length (sample_rows (get_schema df)) \<le> 5"
proof -
  have len: "length (dtypes df) = length (columns df)"
    using wf by (simp add: wf_dataframe_def)
  have t: "types (get_schema df) = zip (columns df) (dtypes df)"
    by (simp add: get_schema_def dict_of_zip [OF dist])
  have keys: "map fst (zip (columns df) (dtypes df)) = columns df"
    using len by simp
  have look: "map_of (zip (columns df) (dtypes df)) (columns df ! i) = Some (dtypes df ! i)"
    if "i < length (columns df)" for i
    using that len dist by (simp add: map_of_zip_nth)
  have rs: "sample_rows (get_schema df) = map (\<lambda>r. zip (columns df) r) (take 5 (rows df))"
    by (simp add: get_schema_def dict_of_zip [OF dist])
  show ?thesis
    using look by (simp add: t keys rs) (simp add: get_schema_def)
qed

theorem get_schema_descriptor_witness:
  "schema_columns (get_schema sales) = [''region'', ''revenue'']
   \<and> schema_columns (get_schema (sales\<lparr>rows := []\<rparr>)) = [''region'', ''revenue'']
   \<and> types (get_schema sales) = [(''region'', ''int64''), (''revenue'', ''int64'')]
   \<and> map_of (types (get_schema sales)) ''revenue'' = Some ''int64''
   \<and> sample_rows (get_schema sales) =
       [[(''region'', 1), (''revenue'', 10)], [(''region'', 2), (''revenue'', 20)],
        [(''region'', 3), (''revenue'', 30)]]"
proof -
  have wf: "wf_dataframe sales" by (simp add: wf_dataframe_def sales_def)
  have dist: "distinct (columns sales)" by (simp add: sales_def)
  have one: "(1::nat) < length (columns sales)" by (simp add: sales_def)
  from get_schema_descriptor [OF wf dist, of "[]"] one
  have "map_of (types (get_schema sales)) (columns sales ! 1) = Some (dtypes sales ! 1)"
    by blast
  with get_schema_descriptor [OF wf dist, of "[]"] show ?thesis
    by (simp add: sales_def)
qed

section \<open>The explanation prompt and the display\<close>

text \<open>
  C3. \<open>explain_result\<close> sends the prompt made of the fixed text, the question and the
  first 1000 characters of \<open>str(result)\<close>: the whole of it when it has at most 1000
  characters, and exactly 1000 characters of it otherwise.
\<close>

theorem explain_result_truncates:
  "explain_result env question result s =
     call_bedrock env
       (nl @ ''Explain the following analysis result in simple business language.'' @ nl @ nl
          @ ''Question:'' @ nl @ question @ nl @ nl @ ''Result:'' @ nl
          @ take 1000 (to_str env result) @ nl) s
   \<and> length (take 1000 (to_str env result)) = min 1000 (length (to_str env result))"
  by (simp add: explain_result_def explain_prompt_def text_lines_def min_def)

text \<open>
  C4. \<open>auto_visualize\<close> chooses the streamlit call by the shape of the result: a bar
  chart for a Series; for a DataFrame with exactly two columns a bar chart of the
  frame indexed by its first column; the table itself for a DataFrame with any other
  number of columns; \<open>st.write\<close> for any other value.
\<close>

theorem auto_visualize_paths:
  "auto_visualize env (Series v) s = st env (Bar_chart (Plain (Series v))) s
   \<and> (columns f2 = [k, c] \<longrightarrow>
        auto_visualize env (DataFrame f2) s = st env (Bar_chart (Set_index f2 k)) s)
   \<and> (length (columns f) \<noteq> 2 \<longrightarrow>
        auto_visualize env (DataFrame f) s = st env (Dataframe_view f) s)
   \<and> auto_visualize env (Other x) s = st env (Write_value (Other x)) s"
  by simp

theorem auto_visualize_paths_witness:
  "auto_visualize (scripted_env []) (Series [10, 20, 30]) fresh
     = (Inr (), fresh\<lparr>page := [Bar_chart (Plain (Series [10, 20, 30]))]\<rparr>)
   \<and> auto_visualize (scripted_env []) (DataFrame sales) fresh
     = (Inr (), fresh\<lparr>page := [Bar_chart (Set_index sales ''region'')]\<rparr>)
   \<and> auto_visualize (scripted_env []) (DataFrame (sales\<lparr>columns := [''a'', ''b'', ''c'']\<rparr>)) fresh
     = (Inr (), fresh\<lparr>page := [Dataframe_view (sales\<lparr>columns := [''a'', ''b'', ''c'']\<rparr>)]\<rparr>)
   \<and> auto_visualize (scripted_env []) (Other 60) fresh
     = (Inr (), fresh\<lparr>page := [Write_value (Other 60)]\<rparr>)"
proof -
  have two: "columns sales = [''region'', ''revenue'']" by (simp add: sales_def)
  have three: "length (columns (sales\<lparr>columns := [''a'', ''b'', ''c'']\<rparr>)) \<noteq> 2" by simp
  have draw: "st (scripted_env []) el fresh = (Inr (), fresh\<lparr>page := [el]\<rparr>)" for el
    by (simp add: st_def scripted_env_def fresh_def)
  from auto_visualize_paths
      [of "scripted_env []" "[10, 20, 30]" fresh sales "''region''" "''revenue''"
        "sales\<lparr>columns := [''a'', ''b'', ''c'']\<rparr>" 60] two three
  show ?thesis
    unfolding draw by blast
qed

section \<open>The remote call\<close>







section \<open>The handler: how often the model is invoked\<close>

lemma then_do_raise: "m s = (Inl e, s') \<Longrightarrow> then_do m f s = (Inl e, s')"
  by (simp add: then_do_def)

lemma then_do_return: "m s = (Inr r, s') \<Longrightarrow> then_do m f s = f r s'"
  by (simp add: then_do_def)

lemma auto_visualize_draws: "auto_visualize env r = st env (chosen_display r)"
  by (cases r) simp_all

lemma call_bedrock_snd:
  "snd (call_bedrock env p s) =
     s\<lparr>invocations := invocations s @ [(MODEL_ID, json_dumps env (request_body p))]\<rparr>"
  by (simp add: call_bedrock_def Let_def split: sum.splits)

lemma call_bedrock_eq:
  "call_bedrock env p s =
     (fst (call_bedrock env p s),
      s\<lparr>invocations := invocations s @ [(MODEL_ID, json_dumps env (request_body p))]\<rparr>)"
  by (metis call_bedrock_snd prod.collapse)

lemma st_calls: "invocations (snd (st env el s)) = invocations s"
  by (simp add: st_def split: option.splits)

lemma st_dataset: "dataset (snd (st env el s)) = dataset s"
  by (simp add: st_def split: option.splits)

lemma execute_on_df_calls: "invocations (snd (execute_on_df env c s)) = invocations s"
  by (simp add: execute_on_df_def split: prod.splits)

lemma then_do_calls_kept:
  assumes "\<And>s. invocations (snd (m s)) = invocations s"
    and "\<And>r s. invocations (snd (f r s)) = invocations s"
  shows "invocations (snd (then_do m f s)) = invocations s"
proof (cases "m s")
  case (Pair o1 s1)
  from assms(1) [of s] Pair have k: "invocations s1 = invocations s" by simp
  show ?thesis
  proof (cases o1)
    case (Inl e)
    with Pair k show ?thesis by (simp add: then_do_def)
  next
    case (Inr r)
    with Pair k assms(2) [of r s1] show ?thesis by (simp add: then_do_def)
  qed
qed

lemma except_block_calls: "invocations (snd (except_block env e s)) = invocations s"
  unfolding except_block_def by (intro then_do_calls_kept st_calls)

lemma then_do_InrE:
  assumes "then_do m f s = (Inr u, t)"
  obtains r s' where "m s = (Inr r, s')" and "f r s' = (Inr u, t)"
  using assms by (auto simp: then_do_def split: prod.splits sum.splits)

lemma st_D: "st env el s = (r, s') \<Longrightarrow> invocations s' = invocations s"
  using st_calls [of env el s] by simp

lemma call_bedrock_D:
  "call_bedrock env p s = (r, s') \<Longrightarrow>
     invocations s' = invocations s @ [(MODEL_ID, json_dumps env (request_body p))]"
  using call_bedrock_snd [of env p s] by simp

lemma execute_on_df_D: "execute_on_df env c s = (r, s') \<Longrightarrow> invocations s' = invocations s"
  using execute_on_df_calls [of env c s] by simp

lemma then_do_calls_upto:
  assumes "\<And>s. invocations (snd (m s)) = invocations s"
    and "\<And>r s. length (invocations (snd (f r s))) = length (invocations s)
                 \<or> length (invocations (snd (f r s))) = length (invocations s) + k"
  shows "length (invocations (snd (then_do m f s))) = length (invocations s)
         \<or> length (invocations (snd (then_do m f s))) = length (invocations s) + k"
proof (cases "m s")
  case (Pair o1 s1)
  from assms(1) [of s] Pair have k: "invocations s1 = invocations s" by simp
  show ?thesis
  proof (cases o1)
    case (Inl e)
    with Pair k show ?thesis by (simp add: then_do_def)
  next
    case (Inr r)
    with Pair k assms(2) [of r s1] show ?thesis by (simp add: then_do_def)
  qed
qed

lemma explain_then_info_calls:
  "length (invocations (snd (then_do (explain_result env q r) (\<lambda>x. st env (Info x)) s)))
     = length (invocations s) + 1"
  by (simp add: then_do_def explain_result_def st_def call_bedrock_def Let_def
        split: prod.splits sum.splits option.splits)

lemma try_body_split:
  "try_body env p q = then_do (call_bedrock env p) (after_generation env q)"
  by (simp add: try_body_def after_generation_def [abs_def])

lemma after_generation_calls:
  "length (invocations (snd (after_generation env q c s))) = length (invocations s)
   \<or> length (invocations (snd (after_generation env q c s))) = length (invocations s) + 1"
  unfolding after_generation_def auto_visualize_draws
  by (intro then_do_calls_upto st_calls execute_on_df_calls disjI2 explain_then_info_calls)

lemma try_body_calls:
  "length (invocations (snd (try_body env p q s))) = length (invocations s) + 1
   \<or> length (invocations (snd (try_body env p q s))) = length (invocations s) + 2"
proof (cases "call_bedrock env p s")
  case (Pair o1 s1)
  from call_bedrock_D [OF Pair] have k: "length (invocations s1) = length (invocations s) + 1"
    by simp
  show ?thesis
  proof (cases o1)
    case (Inl e)
    with Pair k show ?thesis by (simp add: try_body_split then_do_def)
  next
    case (Inr c)
    with Pair k after_generation_calls [of env q c s1] show ?thesis
      by (auto simp: try_body_split then_do_def)
  qed
qed

lemma try_body_success_calls:
  assumes "try_body env p q s = (Inr u, t)"
  shows "\<exists>result. invocations t = invocations s @
           [(MODEL_ID, json_dumps env (request_body p)),
            (MODEL_ID, json_dumps env (request_body (explain_prompt env q result)))]"
  using assms unfolding try_body_def auto_visualize_draws explain_result_def
  by (elim then_do_InrE) (auto dest!: st_D call_bedrock_D execute_on_df_D)


lemma st_ok: "st_raises env el = None \<Longrightarrow> st env el s = (Inr (), s\<lparr>page := page s @ [el]\<rparr>)"
  by (simp add: st_def)

lemma run_analysis_entered:
  assumes "st_raises env Divider = None" and "st_raises env (Subheader ''Analysis'') = None"
  shows "run_analysis env schema q s =
     (case try_body env (build_prompt env schema q) q
             (s\<lparr>page := page s @ [Divider, Subheader ''Analysis'']\<rparr>) of
        (Inr u, s') \<Rightarrow> (Inr u, s')
      | (Inl e, s') \<Rightarrow> except_block env e s')"
  by (simp add: run_analysis_def then_do_def st_ok assms)

lemma caught_calls:
  "invocations (snd (case r of (Inr u, s') \<Rightarrow> (Inr u, s') | (Inl e, s') \<Rightarrow> except_block env e s'))
     = invocations (snd r)"
  by (cases r) (simp add: except_block_calls split: sum.splits)

lemma then_do_calls_le:
  assumes "\<And>s. invocations (snd (m s)) = invocations s"
    and "\<And>r s. length (invocations (snd (f r s))) \<le> length (invocations s) + k"
  shows "length (invocations (snd (then_do m f s))) \<le> length (invocations s) + k"
proof (cases "m s")
  case (Pair o1 s1)
  from assms(1) [of s] Pair have k: "invocations s1 = invocations s" by simp
  show ?thesis
  proof (cases o1)
    case (Inl e)
    with Pair k show ?thesis by (simp add: then_do_def)
  next
    case (Inr r)
    with Pair k assms(2) [of r s1] show ?thesis by (simp add: then_do_def)
  qed
qed

lemma run_analysis_calls_le:
  fixes env :: "('a, 'x, 'w) env"
  shows "length (invocations (snd (run_analysis env schema q s))) \<le> length (invocations s) + 2"
  unfolding run_analysis_def
proof (intro then_do_calls_le st_calls)
  fix r :: unit and t :: "('a, 'w) session"
  show "length (invocations (snd (case try_body env (build_prompt env schema q) q t of
            (Inr u, s') \<Rightarrow> (Inr u, s') | (Inl e, s') \<Rightarrow> except_block env e s')))
        \<le> length (invocations t) + 2"
    using try_body_calls [of env "build_prompt env schema q" q t]
    by (auto simp: caught_calls)
qed

text \<open>
  C6. A run of the handler never invokes the remote model more than twice. Once the
  two headings are drawn and the \<open>try\<close> is entered: when no statement of the
  \<open>try\<close> raises, there are exactly two invocations, the first with the prompt for
  the expression and the second with the explanation prompt; when the first call fails,
  or when it succeeds and \<open>safe_execute\<close> raises, there is exactly the first one; and
  in every case there are one or two.
\<close>

theorem run_analysis_invocation_count:
  "length (invocations (snd (run_analysis env schema question s))) \<le> length (invocations s) + 2
   \<and> (st_raises env Divider = None \<and> st_raises env (Subheader ''Analysis'') = None \<longrightarrow>
       (let prompt = build_prompt env schema question;
            s0 = s\<lparr>page := page s @ [Divider, Subheader ''Analysis'']\<rparr>;
            after = invocations (snd (run_analysis env schema question s))
        in (fst (try_body env prompt question s0) = Inr () \<longrightarrow>
              (\<exists>result. after = invocations s @
                 [(MODEL_ID, json_dumps env (request_body prompt)),
                  (MODEL_ID, json_dumps env (request_body (explain_prompt env question result)))]))
         \<and> (fst (call_bedrock env prompt s0) = Inl e \<longrightarrow>
              after = invocations s @ [(MODEL_ID, json_dumps env (request_body prompt))])
         \<and> (fst (call_bedrock env prompt s0) = Inr code
              \<and> st_raises env (Expander ''AI-Generated Pandas Code'' [Code code]) = None
              \<and> fst (safe_execute env code (dataset s)) = Inl e' \<longrightarrow>
              after = invocations s @ [(MODEL_ID, json_dumps env (request_body prompt))])
         \<and> (length after = length (invocations s) + 1 \<or> length after = length (invocations s) + 2)))"
proof (intro conjI impI)
  show "length (invocations (snd (run_analysis env schema question s))) \<le> length (invocations s) + 2"
    by (rule run_analysis_calls_le)
next
  assume hdr: "st_raises env Divider = None \<and> st_raises env (Subheader ''Analysis'') = None"
  define prompt where "prompt = build_prompt env schema question"
  define s0 where "s0 = s\<lparr>page := page s @ [Divider, Subheader ''Analysis'']\<rparr>"
  define gen where "gen = (MODEL_ID, json_dumps env (request_body prompt))"
  have run: "invocations (snd (run_analysis env schema question s))
      = invocations (snd (try_body env prompt question s0))"
    using hdr by (simp add: run_analysis_entered caught_calls prompt_def s0_def)
  have s0: "invocations s0 = invocations s" "dataset s0 = dataset s"
    by (simp_all add: s0_def)
  have ok: "\<exists>result. invocations (snd (try_body env prompt question s0)) = invocations s @
        [gen, (MODEL_ID, json_dumps env (request_body (explain_prompt env question result)))]"
    if "fst (try_body env prompt question s0) = Inr ()"
  proof -
    from that have "try_body env prompt question s0 = (Inr (), snd (try_body env prompt question s0))"
      by (metis prod.collapse)
    from try_body_success_calls [OF this] show ?thesis by (simp add: s0 gen_def)
  qed
  have cb: "call_bedrock env prompt s0 =
      (fst (call_bedrock env prompt s0), s0\<lparr>invocations := invocations s @ [gen]\<rparr>)"
    using call_bedrock_eq [of env prompt s0] by (simp add: s0 gen_def)
  have genfail: "invocations (snd (try_body env prompt question s0)) = invocations s @ [gen]"
    if "fst (call_bedrock env prompt s0) = Inl e"
    using that cb by (simp add: try_body_split then_do_def split: prod.splits)
  have evalfail: "invocations (snd (try_body env prompt question s0)) = invocations s @ [gen]"
    if "fst (call_bedrock env prompt s0) = Inr code
        \<and> st_raises env (Expander ''AI-Generated Pandas Code'' [Code code]) = None
        \<and> fst (safe_execute env code (dataset s)) = Inl e'"
  proof -
    from that cb have c: "call_bedrock env prompt s0 = (Inr code, s0\<lparr>invocations := invocations s @ [gen]\<rparr>)"
      by simp
    from that obtain d where "safe_execute env code (dataset s) = (Inl e', d)"
      by (metis prod.collapse)
    with that c show ?thesis
      by (simp add: try_body_def then_do_def st_ok execute_on_df_def s0)
  qed
  show "let prompt = build_prompt env schema question;
            s0 = s\<lparr>page := page s @ [Divider, Subheader ''Analysis'']\<rparr>;
            after = invocations (snd (run_analysis env schema question s))
        in (fst (try_body env prompt question s0) = Inr () \<longrightarrow>
              (\<exists>result. after = invocations s @
                 [(MODEL_ID, json_dumps env (request_body prompt)),
                  (MODEL_ID, json_dumps env (request_body (explain_prompt env question result)))]))
         \<and> (fst (call_bedrock env prompt s0) = Inl e \<longrightarrow>
              after = invocations s @ [(MODEL_ID, json_dumps env (request_body prompt))])
         \<and> (fst (call_bedrock env prompt s0) = Inr code
              \<and> st_raises env (Expander ''AI-Generated Pandas Code'' [Code code]) = None
              \<and> fst (safe_execute env code (dataset s)) = Inl e' \<longrightarrow>
              after = invocations s @ [(MODEL_ID, json_dumps env (request_body prompt))])
         \<and> (length after = length (invocations s) + 1 \<or> length after = length (invocations s) + 2)"
    unfolding Let_def prompt_def [symmetric] s0_def [symmetric] gen_def [symmetric] run
    using ok genfail evalfail try_body_calls [of env prompt question s0]
    by (simp add: s0)
qed


theorem run_analysis_invocation_count_witness:
  "length (invocations (snd (run_analysis
       (scripted_env [reply ''len(df)'', reply ''There are three rows.''])
       (get_schema sales) ''How many rows?'' fresh))) = 2
   \<and> invocations (snd (run_analysis (scripted_env []) (get_schema sales) ''How many rows?'' fresh))
       = [(MODEL_ID, request_body (build_prompt (scripted_env []) (get_schema sales) ''How many rows?''))]
   \<and> length (invocations (snd (run_analysis
       (scripted_env [reply ''df.columns.__len__()''])
       (get_schema sales) ''How many rows?'' fresh))) = 1"
proof -
  let ?q = "''How many rows?''"
  let ?s0 = "fresh\<lparr>page := page fresh @ [Divider, Subheader ''Analysis'']\<rparr>"
  let ?E2 = "scripted_env [reply ''len(df)'', reply ''There are three rows.'']"
  let ?E0 = "scripted_env [] :: (int, string, json) env"
  let ?E1 = "scripted_env [reply ''df.columns.__len__()'']"
  have h: "st_raises (scripted_env rs) el = None" "json_dumps (scripted_env rs) j = j" for rs el j
    by (simp_all add: scripted_env_def)
  have f: "invocations fresh = []" "dataset fresh = sales"
    by (simp_all add: fresh_def)
  note t = run_analysis_invocation_count [where s = fresh and schema = "get_schema sales" and question = ?q]
  have a: "fst (try_body ?E2 (build_prompt ?E2 (get_schema sales) ?q) ?q ?s0) = Inr ()"
    by code_simp
  have b: "fst (call_bedrock ?E0 (build_prompt ?E0 (get_schema sales) ?q) ?s0)
             = Inl (Raised ''EndpointConnectionError'')"
    by code_simp
  have c: "fst (call_bedrock ?E1 (build_prompt ?E1 (get_schema sales) ?q) ?s0)
             = Inr ''df.columns.__len__()''"
    by code_simp
  have d: "fst (safe_execute ?E1 ''df.columns.__len__()'' sales)
             = Inl (ValueError ''Unsafe code detected'')"
    by code_simp
  from t [where env = ?E2 and e = "IndexError" and code = "[]" and e' = "IndexError"] a
  have "\<exists>result. invocations (snd (run_analysis ?E2 (get_schema sales) ?q fresh)) =
          [(MODEL_ID, request_body (build_prompt ?E2 (get_schema sales) ?q)),
           (MODEL_ID, request_body (explain_prompt ?E2 ?q result))]"
    by (simp add: Let_def h f)
  then have 1: "length (invocations (snd (run_analysis ?E2 (get_schema sales) ?q fresh))) = 2"
    by auto
  from t [where env = ?E0 and e = "Raised ''EndpointConnectionError''"] b
  have 2: "invocations (snd (run_analysis ?E0 (get_schema sales) ?q fresh))
       = [(MODEL_ID, request_body (build_prompt ?E0 (get_schema sales) ?q))]"
    by (simp add: Let_def h f)
  from t [where env = ?E1 and code = "''df.columns.__len__()''"
        and e' = "ValueError ''Unsafe code detected''"] c d
  have 3: "length (invocations (snd (run_analysis ?E1 (get_schema sales) ?q fresh))) = 1"
    by (simp add: Let_def h f)
  from 1 2 3 show ?thesis by blast
qed

section \<open>The handler: a failing explanation\<close>

lemma call_bedrock_outcome:
  "length (invocations s) = length (invocations t) \<Longrightarrow>
     fst (call_bedrock env p s) = fst (call_bedrock env p t)"
  by (simp add: call_bedrock_def Let_def split: sum.splits)

lemma call_bedrock_result:
  assumes "fst (call_bedrock env p s) = r" and "length (invocations t) = length (invocations s)"
  shows "call_bedrock env p t =
           (r, t\<lparr>invocations := invocations t @ [(MODEL_ID, json_dumps env (request_body p))]\<rparr>)"
proof -
  from assms have "fst (call_bedrock env p t) = r"
    using call_bedrock_outcome [of t s env p] by simp
  moreover have "snd (call_bedrock env p t) =
      t\<lparr>invocations := invocations t @ [(MODEL_ID, json_dumps env (request_body p))]\<rparr>"
    by (rule call_bedrock_snd)
  ultimately show ?thesis by (simp add: prod_eq_iff)
qed


lemma try_body_until_explanation:
  assumes ok: "\<forall>el. st_raises env el = None"
    and gen: "fst (call_bedrock env prompt s) = Inr code"
    and ev: "safe_execute env code (dataset s) = (Inr result, df')"
  shows "try_body env prompt question (s\<lparr>page := page s @ pre\<rparr>) =
     then_do (explain_result env question result) (\<lambda>explanation. st env (Info explanation))
       (s\<lparr>dataset := df',
          invocations := invocations s @ [(MODEL_ID, json_dumps env (request_body prompt))],
          page := page s @ pre @
            [Expander ''AI-Generated Pandas Code'' [Code code],
             Success ''Analysis completed!'',
             Write_str ''### Result'', Write_value result,
             Write_str ''### Visualization'', chosen_display result,
             Write_str ''### Explanation'']\<rparr>)"
proof -
  have draw: "st env el t = (Inr (), t\<lparr>page := page t @ [el]\<rparr>)" for el t
    using ok by (simp add: st_def)
  have step: "then_do (st env el) f t = f () (t\<lparr>page := page t @ [el]\<rparr>)"
    for el t and f :: "unit \<Rightarrow> ('a, 'c) session \<Rightarrow> ('b exn + unit) \<times> ('a, 'c) session"
    by (simp add: then_do_def draw)
  have cb: "call_bedrock env prompt (s\<lparr>page := page s @ pre\<rparr>) =
      (Inr code, s\<lparr>page := page s @ pre,
          invocations := invocations s @ [(MODEL_ID, json_dumps env (request_body prompt))]\<rparr>)"
    using call_bedrock_result [OF gen, of "s\<lparr>page := page s @ pre\<rparr>"] by simp
  show ?thesis
    unfolding try_body_def
    apply (subst then_do_return [where m = "call_bedrock env prompt", OF cb])
    apply (simp add: step)
    apply (simp add: then_do_return [where m = "execute_on_df env code"] execute_on_df_def ev
             auto_visualize_draws step)
    apply (rule arg_cong [where f = "then_do (explain_result env question result) (\<lambda>x. st env (Info x))"])
    apply (cases s)
    apply simp
    done
qed

text \<open>
  C8, as the code has it. When no streamlit call raises, the first remote call returns
  the code, \<open>safe_execute\<close> returns a result and the second remote call fails, the
  failure is handled by the one \<open>except\<close> block, which handles every exception of
  the \<open>try\<close>. The result and its visualization were drawn before the explanation
  was asked for, and they stay on the page: the error message and the trace come after
  them. What is missing is the explanation.
\<close>

theorem explanation_failure_keeps_result:
  assumes ok: "\<forall>el. st_raises env el = None"
    and gen: "fst (call_bedrock env (build_prompt env schema question) s) = Inr code"
    and ev: "safe_execute env code (dataset s) = (Inr result, df')"
    and ex: "fst (explain_result env question result
               (s\<lparr>invocations := invocations s @
                    [(MODEL_ID, json_dumps env (request_body (build_prompt env schema question)))]\<rparr>))
             = Inl e"
  shows "run_analysis env schema question s =
     (Inr (),
      s\<lparr>dataset := df',
        invocations := invocations s @
          [(MODEL_ID, json_dumps env (request_body (build_prompt env schema question))),
           (MODEL_ID, json_dumps env (request_body (explain_prompt env question result)))],
        page := page s @
          [Divider, Subheader ''Analysis'',
           Expander ''AI-Generated Pandas Code'' [Code code],
           Success ''Analysis completed!'',
           Write_str ''### Result'', Write_value result,
           Write_str ''### Visualization'', chosen_display result,
           Write_str ''### Explanation'',
           Error ''Something went wrong.'', Text (format_exc env e)]\<rparr>)
   \<and> (\<forall>e' s'. try_body env (build_prompt env schema question) question
               (s\<lparr>page := page s @ [Divider, Subheader ''Analysis'']\<rparr>) = (Inl e', s')
          \<longrightarrow> run_analysis env schema question s = except_block env e' s')"
proof -
  let ?prompt = "build_prompt env schema question"
  let ?mid = "s\<lparr>dataset := df',
          invocations := invocations s @ [(MODEL_ID, json_dumps env (request_body ?prompt))],
          page := page s @ [Divider, Subheader ''Analysis''] @
            [Expander ''AI-Generated Pandas Code'' [Code code],
             Success ''Analysis completed!'',
             Write_str ''### Result'', Write_value result,
             Write_str ''### Visualization'', chosen_display result,
             Write_str ''### Explanation'']\<rparr>"
  let ?expl = "(MODEL_ID, json_dumps env (request_body (explain_prompt env question result)))"
  from ok have hdr: "st_raises env Divider = None" "st_raises env (Subheader ''Analysis'') = None"
    by simp_all
  have draw: "st env el t = (Inr (), t\<lparr>page := page t @ [el]\<rparr>)" for el t
    using ok by (simp add: st_def)
  have body: "try_body env ?prompt question (s\<lparr>page := page s @ [Divider, Subheader ''Analysis'']\<rparr>)
      = then_do (explain_result env question result) (\<lambda>x. st env (Info x)) ?mid"
    by (rule try_body_until_explanation [OF ok gen ev])
  from ex have "fst (call_bedrock env (explain_prompt env question result)
               (s\<lparr>invocations := invocations s @ [(MODEL_ID, json_dumps env (request_body ?prompt))]\<rparr>))
             = Inl e"
    by (simp add: explain_result_def)
  from call_bedrock_result [OF this, of ?mid]
  have xr: "explain_result env question result ?mid
      = (Inl e, ?mid\<lparr>invocations := invocations ?mid @ [?expl]\<rparr>)"
    by (simp add: explain_result_def)
  have tb: "try_body env ?prompt question (s\<lparr>page := page s @ [Divider, Subheader ''Analysis'']\<rparr>)
      = (Inl e, ?mid\<lparr>invocations := invocations ?mid @ [?expl]\<rparr>)"
    unfolding body by (rule then_do_raise [where m = "explain_result env question result", OF xr])
  have exc: "except_block env e t =
      (Inr (), t\<lparr>page := page t @ [Error ''Something went wrong.'', Text (format_exc env e)]\<rparr>)" for t
    by (simp add: except_block_def then_do_def draw)
  have first: "run_analysis env schema question s =
     (Inr (),
      s\<lparr>dataset := df',
        invocations := invocations s @ [(MODEL_ID, json_dumps env (request_body ?prompt)), ?expl],
        page := page s @
          [Divider, Subheader ''Analysis'',
           Expander ''AI-Generated Pandas Code'' [Code code],
           Success ''Analysis completed!'',
           Write_str ''### Result'', Write_value result,
           Write_str ''### Visualization'', chosen_display result,
           Write_str ''### Explanation'',
           Error ''Something went wrong.'', Text (format_exc env e)]\<rparr>)"
    unfolding run_analysis_entered [OF hdr] tb by (cases s) (simp add: exc)
  have caught: "run_analysis env schema question s = except_block env e' s'"
    if "try_body env ?prompt question
          (s\<lparr>page := page s @ [Divider, Subheader ''Analysis'']\<rparr>) = (Inl e', s')" for e' s'
    unfolding run_analysis_entered [OF hdr] that by simp
  from first caught show ?thesis by blast
qed

theorem explanation_failure_keeps_result_witness:
  "run_analysis
     (scripted_env [reply ''df['revenue'].sum()'', Inr (JObj [(''message'', JStr ''throttled'')])])
     (get_schema sales) ''Total revenue?'' fresh
   = (Inr (),
      fresh\<lparr>dataset := sales,
        invocations :=
          [(MODEL_ID, request_body (build_prompt (scripted_env []) (get_schema sales) ''Total revenue?'')),
           (MODEL_ID, request_body (explain_prompt (scripted_env []) ''Total revenue?'' (Other 60)))],
        page :=
          [Divider, Subheader ''Analysis'',
           Expander ''AI-Generated Pandas Code'' [Code ''df['revenue'].sum()''],
           Success ''Analysis completed!'',
           Write_str ''### Result'', Write_value (Other 60),
           Write_str ''### Visualization'', Write_value (Other 60),
           Write_str ''### Explanation'',
           Error ''Something went wrong.'', Text ''Traceback (most recent call last)'']\<rparr>)"
proof -
  let ?E = "scripted_env [reply ''df['revenue'].sum()'', Inr (JObj [(''message'', JStr ''throttled'')])]"
  let ?q = "''Total revenue?''"
  have ok: "\<forall>el. st_raises ?E el = None" by (simp add: scripted_env_def)
  have gen: "fst (call_bedrock ?E (build_prompt ?E (get_schema sales) ?q) fresh) = Inr ''df['revenue'].sum()''"
    by code_simp
  have ev: "safe_execute ?E ''df['revenue'].sum()'' (dataset fresh) = (Inr (Other 60), sales)"
    by code_simp
  have ex: "fst (explain_result ?E ?q (Other 60)
               (fresh\<lparr>invocations := invocations fresh @
                    [(MODEL_ID, json_dumps ?E (request_body (build_prompt ?E (get_schema sales) ?q)))]\<rparr>))
             = Inl (KeyError ''content'')"
    by code_simp
  have same: "build_prompt ?E = build_prompt (scripted_env [])" "explain_prompt ?E = explain_prompt (scripted_env [])"
    "json_dumps ?E j = j" "format_exc ?E x = ''Traceback (most recent call last)''" for j x
    by (simp_all add: build_prompt_def explain_prompt_def scripted_env_def fun_eq_iff)
  have f: "invocations fresh = []" "page fresh = []" by (simp_all add: fresh_def)
  from explanation_failure_keeps_result [OF ok gen ev ex] show ?thesis
    by (simp add: same f)
qed

text \<open>
  C8 as stated fails: the model answers \<open>len(df)\<close>, the second call times out, and
  the page shows the result 3 twice (as value and as visualization) above the error.
\<close>

theorem explanation_failure_counterexample:
  "page (snd (run_analysis (scripted_env [reply ''len(df)'', Inl ''ReadTimeoutError''])
                (get_schema sales) ''How many rows?'' fresh))
   = [Divider, Subheader ''Analysis'',
      Expander ''AI-Generated Pandas Code'' [Code ''len(df)''],
      Success ''Analysis completed!'',
      Write_str ''### Result'', Write_value (Other 3),
      Write_str ''### Visualization'', Write_value (Other 3),
      Write_str ''### Explanation'',
      Error ''Something went wrong.'', Text ''Traceback (most recent call last)'']"
  by code_simp

section \<open>What changes the DataFrame\<close>

lemma then_do_after:
  assumes "\<And>r s. g (snd (f r s)) = g s"
  shows "g (snd (then_do m f s)) = g (snd (m s))"
  using assms by (simp add: then_do_def split: prod.splits sum.splits)

lemma then_do_kept:
  assumes "\<And>s. g (snd (m s)) = g s" and "\<And>r s. g (snd (f r s)) = g s"
  shows "g (snd (then_do m f s)) = g s"
  using then_do_after [of g f m s] assms by simp

lemma call_bedrock_dataset: "dataset (snd (call_bedrock env p s)) = dataset s"
  by (simp add: call_bedrock_snd)

lemma explain_result_dataset: "dataset (snd (explain_result env q r s)) = dataset s"
  by (simp add: explain_result_def call_bedrock_dataset)

lemma auto_visualize_dataset: "dataset (snd (auto_visualize env r s)) = dataset s"
  by (simp add: auto_visualize_draws st_dataset)

lemma except_block_dataset: "dataset (snd (except_block env e s)) = dataset s"
  unfolding except_block_def by (intro then_do_kept st_dataset)

lemma execute_on_df_dataset:
  "dataset (snd (execute_on_df env code s)) = snd (safe_execute env code (dataset s))"
  by (simp add: execute_on_df_def split: prod.splits)

lemma safe_execute_snd:
  "snd (safe_execute env code df) =
     (if list_ex (\<lambda>b. contains b code) banned then df
      else snd (expr_value env code
                  (resolve (builtin_names env) (eval_globals [''df'' \<mapsto> Dataframe_obj])) df))"
  by (simp add: safe_execute_def eval_py_def split: prod.splits sum.splits)

lemma after_generation_dataset:
  "dataset (snd (after_generation env q c s)) = dataset s
   \<or> dataset (snd (after_generation env q c s)) = snd (safe_execute env c (dataset s))"
proof (cases "st_raises env (Expander ''AI-Generated Pandas Code'' [Code c])")
  case (Some x)
  then show ?thesis by (simp add: after_generation_def then_do_def st_def)
next
  case None
  let ?s1 = "s\<lparr>page := page s @ [Expander ''AI-Generated Pandas Code'' [Code c]]\<rparr>"
  have "dataset (snd (after_generation env q c s)) = dataset (snd (execute_on_df env c ?s1))"
    unfolding after_generation_def
    apply (subst then_do_return [where m = "st env (Expander ''AI-Generated Pandas Code'' [Code c])", OF st_ok [OF None]])
    apply (rule then_do_after)
    apply (intro then_do_kept st_dataset auto_visualize_dataset explain_result_dataset)
    done
  then show ?thesis by (simp add: execute_on_df_dataset)
qed

lemma try_body_dataset:
  "dataset (snd (try_body env p q s)) = dataset s
   \<or> (\<exists>c. fst (call_bedrock env p s) = Inr c
          \<and> dataset (snd (try_body env p q s)) = snd (safe_execute env c (dataset s)))"
proof (cases "call_bedrock env p s")
  case (Pair o1 s1)
  then have d: "dataset s1 = dataset s" using call_bedrock_dataset [of env p s] by simp
  show ?thesis
  proof (cases o1)
    case (Inl e)
    with Pair d show ?thesis by (simp add: try_body_split then_do_def)
  next
    case (Inr c)
    with Pair d after_generation_dataset [of env q c s1] show ?thesis
      by (auto simp: try_body_split then_do_def)
  qed
qed

lemma caught_dataset:
  "dataset (snd (case r of (Inr u, s') \<Rightarrow> (Inr u, s') | (Inl e, s') \<Rightarrow> except_block env e s'))
     = dataset (snd r)"
  by (cases r) (simp add: except_block_dataset split: sum.splits)

lemma run_analysis_dataset:
  "dataset (snd (run_analysis env schema q s)) = dataset s
   \<or> (\<exists>c. fst (call_bedrock env (build_prompt env schema q) s) = Inr c
          \<and> dataset (snd (run_analysis env schema q s)) = snd (safe_execute env c (dataset s)))"
proof (cases "st_raises env Divider = None \<and> st_raises env (Subheader ''Analysis'') = None")
  case True
  let ?s0 = "s\<lparr>page := page s @ [Divider, Subheader ''Analysis'']\<rparr>"
  from True have run: "dataset (snd (run_analysis env schema q s))
      = dataset (snd (try_body env (build_prompt env schema q) q ?s0))"
    by (simp add: run_analysis_entered caught_dataset)
  have same: "fst (call_bedrock env (build_prompt env schema q) ?s0)
      = fst (call_bedrock env (build_prompt env schema q) s)"
    by (rule call_bedrock_outcome) simp
  from try_body_dataset [of env "build_prompt env schema q" q ?s0] show ?thesis
    unfolding run same by simp
next
  case False
  then have "dataset (snd (run_analysis env schema q s)) = dataset s"
    by (auto simp: run_analysis_def then_do_def st_def split: option.splits)
  then show ?thesis ..
qed

text \<open>
  C7, as the code has it. The remote calls, the explanation, every streamlit call, the
  visualization, the \<open>except\<close> block and a rejected expression leave the DataFrame
  of the session as it is (\<open>get_schema\<close> and \<open>build_prompt\<close> take values and have
  no session to change). \<open>safe_execute\<close> hands the DataFrame itself to \<open>eval\<close>:
  after it the DataFrame is what the evaluation left. So after a run of the handler the
  DataFrame is the one before the run, or the one left by evaluating the generated
  expression, which then passed the denylist.
\<close>

theorem dataset_changes_only_by_evaluation:
  "dataset (snd (call_bedrock env p s)) = dataset s
   \<and> dataset (snd (explain_result env q r s)) = dataset s
   \<and> dataset (snd (st env el s)) = dataset s
   \<and> dataset (snd (auto_visualize env r s)) = dataset s
   \<and> dataset (snd (except_block env e s)) = dataset s
   \<and> dataset (snd (execute_on_df env code s)) = snd (safe_execute env code (dataset s))
   \<and> (list_ex (\<lambda>b. contains b code) banned \<longrightarrow>
        dataset (snd (execute_on_df env code s)) = dataset s)
   \<and> (dataset (snd (run_analysis env schema q s)) = dataset s
      \<or> (\<exists>c. fst (call_bedrock env (build_prompt env schema q) s) = Inr c
             \<and> \<not> list_ex (\<lambda>b. contains b c) banned
             \<and> dataset (snd (run_analysis env schema q s))
                 = snd (expr_value env c
                          (resolve (builtin_names env) (eval_globals [''df'' \<mapsto> Dataframe_obj]))
                          (dataset s))))"
proof -
  have last: "dataset (snd (run_analysis env schema q s)) = dataset s
      \<or> (\<exists>c. fst (call_bedrock env (build_prompt env schema q) s) = Inr c
             \<and> \<not> list_ex (\<lambda>b. contains b c) banned
             \<and> dataset (snd (run_analysis env schema q s))
                 = snd (expr_value env c
                          (resolve (builtin_names env) (eval_globals [''df'' \<mapsto> Dataframe_obj]))
                          (dataset s)))"
    using run_analysis_dataset [of env schema q s]
    by (auto simp: safe_execute_snd split: if_splits)
  show ?thesis
    using last
    by (simp add: call_bedrock_dataset explain_result_dataset st_dataset auto_visualize_dataset
          except_block_dataset execute_on_df_dataset safe_execute_snd)
qed

theorem dataset_changes_only_by_evaluation_witness:
  "dataset (snd (execute_on_df (scripted_env []) ''df.__delitem__('revenue')'' fresh)) = sales
   \<and> dataset (snd (call_bedrock (scripted_env []) ''Total revenue?'' fresh)) = sales
   \<and> dataset (snd (run_analysis (scripted_env [reply ''df['revenue'].sum()'', reply ''Sixty.''])
                     (get_schema sales) ''Total revenue?'' fresh)) = sales"
proof -
  let ?E = "scripted_env [reply ''df['revenue'].sum()'', reply ''Sixty.'']"
  have r: "list_ex (\<lambda>b. contains b ''df.__delitem__('revenue')'') banned"
    by (simp add: banned_def)
  have f: "dataset fresh = sales" by (simp add: fresh_def)
  have c: "fst (call_bedrock ?E (build_prompt ?E (get_schema sales) ''Total revenue?'') fresh)
      = Inr ''df['revenue'].sum()''"
    by code_simp
  have v: "snd (expr_value ?E ''df['revenue'].sum()''
                  (resolve (builtin_names ?E) (eval_globals [''df'' \<mapsto> Dataframe_obj])) sales) = sales"
    by (simp add: scripted_env_def pandas_fragment_def sum_column_def resolve_def eval_globals_def sales_def)
  note t0 = dataset_changes_only_by_evaluation
    [of "scripted_env []" "''Total revenue?''" fresh "''Total revenue?''" "Other 0" Divider
        IndexError "''df.__delitem__('revenue')''" "get_schema sales"]
  from t0 r have "dataset (snd (execute_on_df (scripted_env []) ''df.__delitem__('revenue')'' fresh))
      = dataset fresh"
    by blast
  then have 1: "dataset (snd (execute_on_df (scripted_env []) ''df.__delitem__('revenue')'' fresh)) = sales"
    by (simp only: f)
  from t0 have "dataset (snd (call_bedrock (scripted_env []) ''Total revenue?'' fresh)) = dataset fresh"
    by blast
  then have 2: "dataset (snd (call_bedrock (scripted_env []) ''Total revenue?'' fresh)) = sales"
    by (simp only: f)
  note t1 = dataset_changes_only_by_evaluation
    [of ?E "''Total revenue?''" fresh "''Total revenue?''" "Other 0" Divider
        IndexError "''df''" "get_schema sales"]
  from t1 have "dataset (snd (run_analysis ?E (get_schema sales) ''Total revenue?'' fresh)) = dataset fresh
      \<or> (\<exists>c. fst (call_bedrock ?E (build_prompt ?E (get_schema sales) ''Total revenue?'') fresh) = Inr c
             \<and> dataset (snd (run_analysis ?E (get_schema sales) ''Total revenue?'' fresh))
                 = snd (expr_value ?E c
                          (resolve (builtin_names ?E) (eval_globals [''df'' \<mapsto> Dataframe_obj]))
                          (dataset fresh)))"
    by blast
  then have 3: "dataset (snd (run_analysis ?E (get_schema sales) ''Total revenue?'' fresh)) = sales"
    unfolding f c using v by auto
  from 1 2 3 show ?thesis by blast
qed

text \<open>
  C7 as stated fails: \<open>df.pop('revenue')\<close> passes the denylist, and evaluating it
  removes the column \<open>revenue\<close> from the DataFrame of the session.
\<close>

theorem dataset_immutable_counterexample:
  "\<not> list_ex (\<lambda>b. contains b ''df.pop('revenue')'') banned
   \<and> dataset fresh =
       \<lparr>columns = [''region'', ''revenue''], dtypes = [''int64'', ''int64''],
        rows = [[1, 10], [2, 20], [3, 30]]\<rparr>
   \<and> dataset (snd (run_analysis
                     (scripted_env [reply ''df.pop('revenue')'', reply ''The revenue of each region.''])
                     (get_schema sales) ''Show the revenue column'' fresh))
       = \<lparr>columns = [''region''], dtypes = [''int64''], rows = [[1], [2], [3]]\<rparr>"
  by code_simp

end
